theory Spec2Isabelle
  imports Complex_Main
begin

section \<open>Common Python values\<close>

text \<open>
  Python and numpy floats are idealised as real numbers throughout. A float result that
  is not a finite number (numpy's \<open>nan\<close> for the mean of an empty series, \<open>nan\<close> or
  \<open>inf\<close> for a division by zero on numpy floats) is \<open>None\<close>; it is a value, not
  an exception. Exceptions are \<open>Inl\<close> of a sum type.
\<close>

datatype py_error = KeyError | ValueError | IndexError

type_synonym npfloat = "real option"

definition py_bind :: "py_error + 'a \<Rightarrow> ('a \<Rightarrow> py_error + 'b) \<Rightarrow> py_error + 'b" where
  "py_bind m f = (case m of Inl e \<Rightarrow> Inl e | Inr v \<Rightarrow> f v)"

definition fsub :: "npfloat \<Rightarrow> npfloat \<Rightarrow> npfloat" where
  "fsub a b = (case a of None \<Rightarrow> None | Some x \<Rightarrow> (case b of None \<Rightarrow> None | Some y \<Rightarrow> Some (x - y)))"

definition fmul :: "npfloat \<Rightarrow> npfloat \<Rightarrow> npfloat" where
  "fmul a b = (case a of None \<Rightarrow> None | Some x \<Rightarrow> (case b of None \<Rightarrow> None | Some y \<Rightarrow> Some (x * y)))"

definition fdiv :: "npfloat \<Rightarrow> npfloat \<Rightarrow> npfloat" where
  \<comment> \<open>numpy float division: a zero divisor gives inf or nan (with a warning), no exception\<close>
  "fdiv a b = (case a of None \<Rightarrow> None | Some x \<Rightarrow>
     (case b of None \<Rightarrow> None | Some y \<Rightarrow> if y = 0 then None else Some (x / y)))"

definition py_int :: "real \<Rightarrow> int" where
  \<comment> \<open>\<open>int(x)\<close> on a float truncates toward zero\<close>
  "py_int x = (if 0 \<le> x then \<lfloor>x\<rfloor> else \<lceil>x\<rceil>)"


section \<open>The optimization oracle\<close>

text \<open>
  \<open>create_goal_optimization_model\<close> is imported from another module; both applications
  call it with seven keyword arguments and read five keys of the result dictionary. It is
  a parameter of every function below that calls it.
\<close>

record model_params =
  heat_treatment_capacity :: real
  machining_capacity :: real
  assembly_capacity :: real
  demand_a :: real
  demand_b :: real
  profit_a :: real
  profit_b :: real

record optimization_result =
  total_throughput :: real
  product_a :: real
  product_b :: real
  bottleneck :: string
  heat_treatment_utilization :: real

type_synonym goal_model = "model_params \<Rightarrow> optimization_result"


section \<open>Option B: Monte Carlo simulation\<close>

subsection \<open>Inputs\<close>

text \<open>The sidebar's sliders, read through \<open>input.*()\<close>.\<close>

record sim_inputs =
  n_sims :: nat
  base_heat :: real
  base_mach :: real
  base_assy :: real
  base_dema :: real
  base_demb :: real
  base_profa :: real
  base_profb :: real
  demand_unc :: real
  capacity_unc :: real
  price_unc :: real

definition slider :: "real \<Rightarrow> real \<Rightarrow> real \<Rightarrow> bool" where
  \<comment> \<open>\<open>ui.input_slider(min=lo, max=hi)\<close> only delivers values between its ends\<close>
  "slider lo hi v \<longleftrightarrow> lo \<le> v \<and> v \<le> hi"

definition slider_inputs :: "sim_inputs \<Rightarrow> bool" where
  "slider_inputs inp \<longleftrightarrow>
     slider 100 2000 (real (n_sims inp)) \<and>
     slider 80 240 (base_heat inp) \<and>
     slider 100 300 (base_mach inp) \<and>
     slider 100 300 (base_assy inp) \<and>
     slider 0 100 (base_dema inp) \<and>
     slider 0 150 (base_demb inp) \<and>
     slider 50 150 (base_profa inp) \<and>
     slider 30 100 (base_profb inp) \<and>
     slider 0 50 (demand_unc inp) \<and>
     slider 0 30 (capacity_unc inp) \<and>
     slider 0 40 (price_unc inp)"

definition baseline :: "goal_model \<Rightarrow> sim_inputs \<Rightarrow> optimization_result" where
  "baseline orc inp = orc \<lparr>
     heat_treatment_capacity = base_heat inp,
     machining_capacity = base_mach inp,
     assembly_capacity = base_assy inp,
     demand_a = base_dema inp,
     demand_b = base_demb inp,
     profit_a = base_profa inp,
     profit_b = base_profb inp\<rparr>"

subsection \<open>Sampling and the simulation loop\<close>

text \<open>The base parameters on their own, as the baseline passes them to the oracle.\<close>

definition base_params :: "sim_inputs \<Rightarrow> model_params" where
  "base_params inp = \<lparr>
     heat_treatment_capacity = base_heat inp,
     machining_capacity = base_mach inp,
     assembly_capacity = base_assy inp,
     demand_a = base_dema inp,
     demand_b = base_demb inp,
     profit_a = base_profa inp,
     profit_b = base_profb inp\<rparr>"

text \<open>
  \<open>np.random.normal(loc, scale)\<close> returns \<open>loc + scale * z\<close> for a standard normal
  variate \<open>z\<close>, and raises \<open>ValueError\<close> for a negative scale. The variate is an
  argument: one trial consumes seven of them, in the order of the source.
\<close>

definition normal :: "real \<Rightarrow> real \<Rightarrow> real \<Rightarrow> py_error + real" where
  "normal loc scale z = (if scale < 0 then Inl ValueError else Inr (loc + scale * z))"

record draws =
  z_dema :: real
  z_demb :: real
  z_heat :: real
  z_mach :: real
  z_assy :: real
  z_profa :: real
  z_profb :: real

definition sample :: "sim_inputs \<Rightarrow> draws \<Rightarrow> py_error + model_params" where
  "sample inp z =
     py_bind (normal (base_dema inp) (base_dema inp * demand_unc inp / 100) (z_dema z)) (\<lambda>da.
     py_bind (normal (base_demb inp) (base_demb inp * demand_unc inp / 100) (z_demb z)) (\<lambda>db.
     py_bind (normal (base_heat inp) (base_heat inp * capacity_unc inp / 100) (z_heat z)) (\<lambda>ht.
     py_bind (normal (base_mach inp) (base_mach inp * capacity_unc inp / 100) (z_mach z)) (\<lambda>ma.
     py_bind (normal (base_assy inp) (base_assy inp * capacity_unc inp / 100) (z_assy z)) (\<lambda>asm.
     py_bind (normal (base_profa inp) (base_profa inp * price_unc inp / 100) (z_profa z)) (\<lambda>pa.
     py_bind (normal (base_profb inp) (base_profb inp * price_unc inp / 100) (z_profb z)) (\<lambda>pb.
     Inr \<lparr>
       heat_treatment_capacity = max 50 ht,
       machining_capacity = max 50 ma,
       assembly_capacity = max 50 asm,
       demand_a = max 0 da,
       demand_b = max 0 db,
       profit_a = max 10 pa,
       profit_b = max 10 pb\<rparr>)))))))"

record row =
  throughput :: real
  row_product_a :: real
  row_product_b :: real
  row_bottleneck :: string
  ht_utilization :: real

type_synonym dataframe = "row list"

definition result_row :: "optimization_result \<Rightarrow> row" where
  "result_row r = \<lparr>
     throughput = total_throughput r,
     row_product_a = product_a r,
     row_product_b = product_b r,
     row_bottleneck = bottleneck r,
     ht_utilization = heat_treatment_utilization r\<rparr>"

text \<open>The loop body, and the loop over the trials' variates; an exception ends the run.\<close>

definition run_trial :: "goal_model \<Rightarrow> sim_inputs \<Rightarrow> draws \<Rightarrow> py_error + row" where
  "run_trial orc inp z = py_bind (sample inp z) (\<lambda>p. Inr (result_row (orc p)))"

fun run_trials :: "goal_model \<Rightarrow> sim_inputs \<Rightarrow> draws list \<Rightarrow> py_error + row list" where
  "run_trials orc inp [] = Inr []"
| "run_trials orc inp (z # zs) =
     py_bind (run_trial orc inp z) (\<lambda>r.
     py_bind (run_trials orc inp zs) (\<lambda>rs. Inr (r # rs)))"

definition run_simulation :: "goal_model \<Rightarrow> sim_inputs \<Rightarrow> (nat \<Rightarrow> draws) \<Rightarrow> py_error + dataframe" where
  \<comment> \<open>\<open>rng i\<close> is what trial \<open>i\<close> draws; the result is what \<open>simulation_data\<close> is set to\<close>
  "run_simulation orc inp rng = run_trials orc inp (map rng [0..<n_sims inp])"

definition floors_hold :: "model_params \<Rightarrow> bool" where
  "floors_hold p \<longleftrightarrow>
     0 \<le> demand_a p \<and> 0 \<le> demand_b p \<and>
     50 \<le> heat_treatment_capacity p \<and> 50 \<le> machining_capacity p \<and> 50 \<le> assembly_capacity p \<and>
     10 \<le> profit_a p \<and> 10 \<le> profit_b p"


subsection \<open>The data frame and its statistics\<close>

text \<open>
  \<open>pd.DataFrame(results)\<close> of a list of dictionaries has one row per dictionary. Built
  from the empty list it has no columns at all, so \<open>df['throughput']\<close> raises
  \<open>KeyError\<close>; otherwise it is the series of that key's values.
\<close>

definition column :: "(row \<Rightarrow> 'a) \<Rightarrow> dataframe \<Rightarrow> py_error + 'a list" where
  "column key df = (if df = [] then Inl KeyError else Inr (map key df))"

definition mean :: "real list \<Rightarrow> npfloat" where
  "mean xs = (if xs = [] then None else Some (sum_list xs / real (length xs)))"

definition bool_mean :: "bool list \<Rightarrow> npfloat" where
  \<comment> \<open>the mean of a boolean series counts \<open>True\<close> as 1\<close>
  "bool_mean bs = mean (map (\<lambda>b. if b then 1 else 0) bs)"

definition std :: "real list \<Rightarrow> npfloat" where
  \<comment> \<open>pandas' default: the sample standard deviation (\<open>ddof=1\<close>), nan below two values\<close>
  "std xs = (if length xs < 2 then None
     else let m = sum_list xs / real (length xs)
          in Some (sqrt (sum_list (map (\<lambda>x. (x - m)\<^sup>2) xs) / real (length xs - 1))))"

text \<open>
  \<open>Series.quantile(q)\<close> with its default linear interpolation: on the sorted values
  \<open>s\<close>, the virtual index is \<open>(n - 1) * q\<close>, and the result lies between the two
  neighbouring values in proportion to the index's fractional part. A \<open>q\<close> outside
  \<open>[0, 1]\<close> is rejected before anything is computed.
\<close>

definition interpolate :: "real list \<Rightarrow> real \<Rightarrow> real" where
  "interpolate s h =
     (let lo = nat \<lfloor>h\<rfloor>; hi = min (lo + 1) (length s - 1)
      in s ! lo + (h - real lo) * (s ! hi - s ! lo))"

definition quantile :: "real list \<Rightarrow> real \<Rightarrow> py_error + npfloat" where
  "quantile xs q =
     (if q < 0 \<or> 1 < q then Inl ValueError
      else if xs = [] then Inr None
      else Inr (Some (interpolate (sort xs) (real (length xs - 1) * q))))"

text \<open>
  \<open>Series.value_counts()\<close>: each distinct value with its count, the largest count
  first. The order among equal counts is an implementation detail of pandas; this model
  keeps the values' first-seen order there.
\<close>

definition first_seen :: "'a list \<Rightarrow> 'a list" where
  "first_seen xs = rev (remdups (rev xs))"

definition value_counts :: "'a list \<Rightarrow> ('a \<times> nat) list" where
  "value_counts xs =
     sort_key (\<lambda>p. - int (snd p)) (map (\<lambda>v. (v, count_list xs v)) (first_seen xs))"

subsection \<open>Key metrics\<close>

text \<open>
  The render functions return HTML; the model returns the numbers that the HTML formats.
  Every one of them returns an empty output (\<open>Inr None\<close>, or the empty table) while
  \<open>simulation_data\<close> is still \<open>None\<close>.
\<close>

record key_metrics_out =
  mean_throughput :: npfloat
  percentile_5 :: npfloat
  percentile_95 :: npfloat
  std_throughput :: npfloat
  delta_mean :: npfloat
  delta_5 :: npfloat
  delta_95 :: npfloat

definition key_metrics ::
  "optimization_result \<Rightarrow> dataframe option \<Rightarrow> py_error + key_metrics_out option" where
  "key_metrics base simulation_data =
     (case simulation_data of None \<Rightarrow> Inr None | Some df \<Rightarrow>
        py_bind (column throughput df) (\<lambda>xs.
        py_bind (quantile xs (5 / 100)) (\<lambda>p5.
        py_bind (quantile xs (95 / 100)) (\<lambda>p95.
        Inr (Some \<lparr>
          mean_throughput = mean xs,
          percentile_5 = p5,
          percentile_95 = p95,
          std_throughput = std xs,
          delta_mean = fsub (mean xs) (Some (total_throughput base)),
          delta_5 = fsub p5 (Some (total_throughput base)),
          delta_95 = fsub p95 (Some (total_throughput base))\<rparr>)))))"

subsection \<open>Probability analysis\<close>

record probability_out =
  target_used :: real
  prob_exceed :: npfloat
  prob_below :: npfloat

definition default_target :: "optimization_result \<Rightarrow> real option \<Rightarrow> real" where
  \<comment> \<open>\<open>if target is None or target == 0: target = int(base['total_throughput'])\<close>\<close>
  "default_target base target =
     (case target of
        None \<Rightarrow> real_of_int (py_int (total_throughput base))
      | Some t \<Rightarrow> if t = 0 then real_of_int (py_int (total_throughput base)) else t)"

definition probability_result ::
  "optimization_result \<Rightarrow> real option \<Rightarrow> dataframe option \<Rightarrow> py_error + probability_out option" where
  "probability_result base target simulation_data =
     (case simulation_data of None \<Rightarrow> Inr None | Some df \<Rightarrow>
        (let tgt = default_target base target in
         py_bind (column throughput df) (\<lambda>xs.
         py_bind (column throughput df) (\<lambda>ys.
         Inr (Some \<lparr>
           target_used = tgt,
           prob_exceed = fmul (bool_mean (map (\<lambda>x. x \<ge> tgt) xs)) (Some 100),
           prob_below = fmul (bool_mean (map (\<lambda>y. y < tgt) ys)) (Some 100)\<rparr>)))))"

subsection \<open>Confidence intervals\<close>

record ci_row =
  confidence :: real
  lower_bound :: npfloat
  upper_bound :: npfloat
  ci_range :: npfloat

definition confidence_levels :: "real list" where
  "confidence_levels = [50, 80, 90, 95, 99]"

fun ci_loop :: "dataframe \<Rightarrow> real list \<Rightarrow> py_error + ci_row list" where
  "ci_loop df [] = Inr []"
| "ci_loop df (conf # confs) =
     (let lower = (100 - conf) / 2; upper = conf + lower in
      py_bind (column throughput df) (\<lambda>xs.
      py_bind (quantile xs (lower / 100)) (\<lambda>lb.
      py_bind (column throughput df) (\<lambda>ys.
      py_bind (quantile ys (upper / 100)) (\<lambda>ub.
      py_bind (ci_loop df confs) (\<lambda>ci_data.
      Inr (\<lparr>confidence = conf, lower_bound = lb, upper_bound = ub,
             ci_range = fsub ub lb\<rparr> # ci_data)))))))"

definition confidence_intervals :: "dataframe option \<Rightarrow> py_error + ci_row list" where
  "confidence_intervals simulation_data =
     (case simulation_data of None \<Rightarrow> Inr [] | Some df \<Rightarrow> ci_loop df confidence_levels)"

subsection \<open>Key insights\<close>

record insights_out =
  mean_vs_baseline :: npfloat
  prob_above_baseline :: npfloat
  worst_case :: npfloat
  worst_case_pct :: npfloat
  best_case :: npfloat
  best_case_pct :: npfloat
  most_common_bottleneck :: string
  bottleneck_pct :: npfloat

definition pct_of_baseline :: "npfloat \<Rightarrow> real \<Rightarrow> npfloat" where
  \<comment> \<open>\<open>(percentile / base['total_throughput'] - 1) * 100\<close>\<close>
  "pct_of_baseline p b = fmul (fsub (fdiv p (Some b)) (Some 1)) (Some 100)"

definition insights_b ::
  "optimization_result \<Rightarrow> dataframe option \<Rightarrow> py_error + insights_out option" where
  "insights_b base simulation_data =
     (case simulation_data of None \<Rightarrow> Inr None | Some df \<Rightarrow>
        py_bind (column throughput df) (\<lambda>xs.
        py_bind (quantile xs (5 / 100)) (\<lambda>p5.
        py_bind (quantile xs (95 / 100)) (\<lambda>p95.
        py_bind (column row_bottleneck df) (\<lambda>bs.
        (case value_counts bs of
           [] \<Rightarrow> Inl IndexError
         | (b, c) # _ \<Rightarrow>
           Inr (Some \<lparr>
             mean_vs_baseline = fsub (mean xs) (Some (total_throughput base)),
             prob_above_baseline =
               fmul (bool_mean (map (\<lambda>x. x > total_throughput base) xs)) (Some 100),
             worst_case = p5,
             worst_case_pct = pct_of_baseline p5 (total_throughput base),
             best_case = p95,
             best_case_pct = pct_of_baseline p95 (total_throughput base),
             most_common_bottleneck = b,
             bottleneck_pct =
               fmul (fdiv (Some (real c)) (Some (real (length df)))) (Some 100)\<rparr>)))))))"


section \<open>Option A: multi-scenario comparison\<close>

record scenario_input =
  name_in :: string
  heat :: real
  mach :: real
  assy :: real
  dema :: real
  demb :: real
  profa :: real
  profb :: real

record named_result = optimization_result +
  name :: string

record results =
  s1 :: named_result
  s2 :: named_result
  s3 :: named_result

definition solve_one :: "goal_model \<Rightarrow> scenario_input \<Rightarrow> named_result" where
  "solve_one orc sc =
     optimization_result.extend
       (orc \<lparr>
          heat_treatment_capacity = heat sc,
          machining_capacity = mach sc,
          assembly_capacity = assy sc,
          demand_a = dema sc,
          demand_b = demb sc,
          profit_a = profa sc,
          profit_b = profb sc\<rparr>)
       (named_result.fields (name_in sc))"

definition solve_scenarios ::
  "goal_model \<Rightarrow> scenario_input \<Rightarrow> scenario_input \<Rightarrow> scenario_input \<Rightarrow> results" where
  "solve_scenarios orc sc1 sc2 sc3 =
     \<lparr>s1 = solve_one orc sc1, s2 = solve_one orc sc2, s3 = solve_one orc sc3\<rparr>"

subsection \<open>Scenario cards\<close>

record scenario_card =
  card_result :: named_result
  is_best :: bool

definition max3 :: "real \<Rightarrow> real \<Rightarrow> real \<Rightarrow> real" where
  \<comment> \<open>\<open>max(a, b, c)\<close>\<close>
  "max3 a b c = max (max a b) c"

definition scenario1_card :: "results \<Rightarrow> scenario_card" where
  "scenario1_card rs =
     (let best_throughput =
        max3 (total_throughput (s1 rs)) (total_throughput (s2 rs)) (total_throughput (s3 rs))
      in \<lparr>card_result = s1 rs, is_best = (total_throughput (s1 rs) = best_throughput)\<rparr>)"

definition scenario2_card :: "results \<Rightarrow> scenario_card" where
  "scenario2_card rs =
     (let best_throughput =
        max3 (total_throughput (s1 rs)) (total_throughput (s2 rs)) (total_throughput (s3 rs))
      in \<lparr>card_result = s2 rs, is_best = (total_throughput (s2 rs) = best_throughput)\<rparr>)"

definition scenario3_card :: "results \<Rightarrow> scenario_card" where
  "scenario3_card rs =
     (let best_throughput =
        max3 (total_throughput (s1 rs)) (total_throughput (s2 rs)) (total_throughput (s3 rs))
      in \<lparr>card_result = s3 rs, is_best = (total_throughput (s3 rs) = best_throughput)\<rparr>)"

subsection \<open>Insights\<close>

fun py_max :: "real list \<Rightarrow> py_error + real" where
  \<comment> \<open>\<open>max(xs)\<close>: \<open>ValueError\<close> on the empty list\<close>
  "py_max [] = Inl ValueError"
| "py_max (x # xs) = Inr (fold max xs x)"

fun py_index :: "'a list \<Rightarrow> 'a \<Rightarrow> py_error + nat" where
  \<comment> \<open>\<open>xs.index(v)\<close>: the first position of \<open>v\<close>, \<open>ValueError\<close> when there is none\<close>
  "py_index [] v = Inl ValueError"
| "py_index (x # xs) v = (if x = v then Inr 0 else py_bind (py_index xs v) (\<lambda>i. Inr (Suc i)))"

definition py_nth :: "'a list \<Rightarrow> nat \<Rightarrow> py_error + 'a" where
  "py_nth xs i = (if i < length xs then Inr (xs ! i) else Inl IndexError)"

text \<open>
  \<open>list(set(bottlenecks))\<close> holds each distinct value once, in the iteration order of
  the set, which for strings changes with the interpreter's hash seed. The order is an
  argument of the model: \<open>set_listing xs ys\<close> says that \<open>ys\<close> is one of the lists that
  \<open>list(set(xs))\<close> can be.
\<close>

definition set_listing :: "'a list \<Rightarrow> 'a list \<Rightarrow> bool" where
  "set_listing xs ys \<longleftrightarrow> distinct ys \<and> set ys = set xs"

datatype bottleneck_insight = Bottleneck_Shift "string list" | Consistent_Bottleneck string

definition bottleneck_report :: "string list \<Rightarrow> py_error + bottleneck_insight" where
  "bottleneck_report unique_bottlenecks =
     (if length unique_bottlenecks > 1 then Inr (Bottleneck_Shift unique_bottlenecks)
      else py_bind (py_nth unique_bottlenecks 0) (\<lambda>b. Inr (Consistent_Bottleneck b)))"

record comparison_insights =
  best_name :: string
  best_throughput :: real
  improvement :: real
  improvement_pct :: real
  improvement_shown :: bool
  bottleneck_box :: bottleneck_insight

definition insights_a :: "results \<Rightarrow> string list \<Rightarrow> py_error + comparison_insights" where
  "insights_a rs unique_bottlenecks =
     (let throughputs =
        [total_throughput (s1 rs), total_throughput (s2 rs), total_throughput (s3 rs)]
      in
      py_bind (py_max throughputs) (\<lambda>m.
      py_bind (py_index throughputs m) (\<lambda>best_idx.
      py_bind (py_nth [s1 rs, s2 rs, s3 rs] best_idx) (\<lambda>best_result.
      (let baseline_throughput = total_throughput (s1 rs);
           best_t = total_throughput best_result;
           impr = best_t - baseline_throughput;
           impr_pct = (if baseline_throughput > 0 then (impr / baseline_throughput) * 100 else 0)
       in
       py_bind (bottleneck_report unique_bottlenecks) (\<lambda>box.
       Inr \<lparr>
         best_name = name best_result,
         best_throughput = best_t,
         improvement = impr,
         improvement_pct = impr_pct,
         improvement_shown = (best_idx \<noteq> 0),
         bottleneck_box = box\<rparr>))))))"

definition bottlenecks_of :: "results \<Rightarrow> string list" where
  "bottlenecks_of rs = [bottleneck (s1 rs), bottleneck (s2 rs), bottleneck (s3 rs)]"


section \<open>Example inputs\<close>

text \<open>The sliders' initial values, and seven variates of one trial, several of them far out.\<close>

definition default_inputs :: sim_inputs where
  "default_inputs = \<lparr>n_sims = 500, base_heat = 160, base_mach = 200, base_assy = 180,
     base_dema = 50, base_demb = 80, base_profa = 90, base_profb = 60,
     demand_unc = 20, capacity_unc = 10, price_unc = 15\<rparr>"

definition low_draws :: draws where
  "low_draws = \<lparr>z_dema = - 10, z_demb = 1, z_heat = - 8, z_mach = 0, z_assy = 2,
     z_profa = - 7, z_profb = 1 / 2\<rparr>"

definition example_row :: "real \<Rightarrow> row" where
  "example_row t = \<lparr>throughput = t, row_product_a = 0, row_product_b = 0,
     row_bottleneck = ''machining'', ht_utilization = 100\<rparr>"

definition example_base :: optimization_result where
  "example_base = \<lparr>total_throughput = 3000, product_a = 20, product_b = 20,
     bottleneck = ''machining'', heat_treatment_utilization = 100\<rparr>"

definition five_trials :: dataframe where
  "five_trials = map example_row [3000, 1000, 5000, 2000, 4000]"

text \<open>
  Two runs of a hundred trials: in one, four trials rise above a throughput that the other
  ninety-six share; in the other, four trials fall below it.
\<close>

definition mostly_low :: dataframe where
  "mostly_low = replicate 96 (example_row 5000) @ replicate 4 (example_row 6000)"

definition mostly_high :: dataframe where
  "mostly_high = replicate 4 (example_row 9000) @ replicate 96 (example_row 9300)"

text \<open>
  A baseline whose throughput is not a whole number with a hundred trials that repeat it,
  and three trials that all meet the baseline of \<open>example_base\<close>.
\<close>

definition fractional_base :: optimization_result where
  "fractional_base = \<lparr>total_throughput = 2001 / 2, product_a = 20, product_b = 20,
     bottleneck = ''machining'', heat_treatment_utilization = 100\<rparr>"

definition fractional_run :: dataframe where
  "fractional_run = replicate 100 (example_row (2001 / 2))"


text \<open>
  The sliders' initial values with the three uncertainty sliders at 0, and a stand-in for
  the oracle in the examples: it sells the whole demand.
\<close>

definition certain_inputs :: sim_inputs where
  "certain_inputs = default_inputs\<lparr>demand_unc := 0, capacity_unc := 0, price_unc := 0\<rparr>"

definition sell_demand :: goal_model where
  "sell_demand p = \<lparr>total_throughput = profit_a p * demand_a p + profit_b p * demand_b p,
     product_a = demand_a p, product_b = demand_b p,
     bottleneck = ''heat_treatment'', heat_treatment_utilization = 100\<rparr>"

text \<open>Three solved scenarios: two tie for the highest throughput, the third has another
  bottleneck.\<close>

definition tied_results :: results where
  "tied_results = \<lparr>
     s1 = \<lparr>total_throughput = 1000, product_a = 10, product_b = 10, bottleneck = ''machining'',
           heat_treatment_utilization = 80, name = ''Baseline''\<rparr>,
     s2 = \<lparr>total_throughput = 1200, product_a = 12, product_b = 12, bottleneck = ''machining'',
           heat_treatment_utilization = 90, name = ''Elevate Bottleneck''\<rparr>,
     s3 = \<lparr>total_throughput = 1200, product_a = 14, product_b = 10, bottleneck = ''assembly'',
           heat_treatment_utilization = 95, name = ''Premium Product A''\<rparr>\<rparr>"

text \<open>
  Zero uncertainty with two base values under their floors, as a caller other than the
  sliders could pass them.
\<close>

definition below_floor_inputs :: sim_inputs where
  "below_floor_inputs = certain_inputs\<lparr>base_heat := 40, base_profa := 5\<rparr>"

text \<open>A baseline of 5000, the throughput that ninety-six trials of \<open>mostly_low\<close> have.\<close>

definition low_base :: optimization_result where
  "low_base = \<lparr>total_throughput = 5000, product_a = 20, product_b = 20,
     bottleneck = ''machining'', heat_treatment_utilization = 100\<rparr>"



section \<open>Properties of the sampler\<close>

lemma py_bind_Inr_iff:
  "py_bind m f = Inr y \<longleftrightarrow> (\<exists>v. m = Inr v \<and> f v = Inr y)"
  by (cases m) (simp_all add: py_bind_def)

lemma normal_Inr: "0 \<le> scale \<Longrightarrow> normal loc scale z = Inr (loc + scale * z)"
  by (simp add: normal_def)

lemma sample_total:
  assumes "0 \<le> base_dema inp" "0 \<le> base_demb inp" "0 \<le> base_heat inp" "0 \<le> base_mach inp"
    "0 \<le> base_assy inp" "0 \<le> base_profa inp" "0 \<le> base_profb inp"
    "0 \<le> demand_unc inp" "0 \<le> capacity_unc inp" "0 \<le> price_unc inp"
  shows "\<exists>p. sample inp z = Inr p"
  using assms by (simp add: sample_def normal_Inr py_bind_def)

text \<open>
  C1. Every parameter set that the sampler produces has demands at least 0, capacities at
  least 50 and profits at least 10, whatever the base values, the uncertainty percentages
  and the seven normal variates are; and it is this parameter set that the trial passes to
  the oracle.
\<close>

theorem C1_floor_invariant:
  assumes "sample inp z = Inr p"
  shows "floors_hold p \<and> run_trial orc inp z = Inr (result_row (orc p))"
proof
  show "floors_hold p"
    using assms by (auto simp: sample_def py_bind_Inr_iff floors_hold_def)
  show "run_trial orc inp z = Inr (result_row (orc p))"
    using assms by (simp add: run_trial_def py_bind_def)
qed

theorem C1_floor_invariant_witness:
  "sample default_inputs low_draws =
     Inr \<lparr>heat_treatment_capacity = 50, machining_capacity = 200, assembly_capacity = 216,
          demand_a = 0, demand_b = 96, profit_a = 10, profit_b = 129 / 2\<rparr> \<and>
   floors_hold \<lparr>heat_treatment_capacity = 50, machining_capacity = 200, assembly_capacity = 216,
          demand_a = 0, demand_b = 96, profit_a = 10, profit_b = 129 / 2\<rparr> \<and>
   run_trial sell_demand default_inputs low_draws =
     Inr \<lparr>throughput = 6192, row_product_a = 0, row_product_b = 96,
          row_bottleneck = ''heat_treatment'', ht_utilization = 100\<rparr>"
proof -
  have s: "sample default_inputs low_draws =
     Inr \<lparr>heat_treatment_capacity = 50, machining_capacity = 200, assembly_capacity = 216,
          demand_a = 0, demand_b = 96, profit_a = 10, profit_b = 129 / 2\<rparr>"
    by (simp add: sample_def default_inputs_def low_draws_def normal_def py_bind_def)
  from C1_floor_invariant [OF s, of sell_demand] s show ?thesis
    by (simp add: result_row_def sell_demand_def)
qed


section \<open>Properties of the quantile\<close>

lemma interpolate_bounds:
  assumes "sorted s" "0 \<le> h" "h \<le> real (length s - 1)" "s \<noteq> []"
  shows "s ! nat \<lfloor>h\<rfloor> \<le> interpolate s h"
    and "interpolate s h \<le> s ! min (nat \<lfloor>h\<rfloor> + 1) (length s - 1)"
proof -
  let ?lo = "nat \<lfloor>h\<rfloor>"
  let ?hi = "min (?lo + 1) (length s - 1)"
  have lo: "real ?lo \<le> h" "h < real ?lo + 1" using assms(2) by linarith+
  have lolen: "?lo \<le> length s - 1" using assms(3) lo by linarith
  have hilen: "?hi < length s" using assms(4) by (cases s) auto
  have "?lo \<le> ?hi" using lolen by simp
  then have d: "s ! ?lo \<le> s ! ?hi" using assms(1) hilen by (simp add: sorted_nth_mono)
  have g0: "0 \<le> h - real ?lo" and g1: "h - real ?lo \<le> 1" using lo by linarith+
  have i: "interpolate s h = s ! ?lo + (h - real ?lo) * (s ! ?hi - s ! ?lo)"
    by (simp add: interpolate_def Let_def)
  show "s ! ?lo \<le> interpolate s h" using d g0 by (simp add: i)
  have "(h - real ?lo) * (s ! ?hi - s ! ?lo) \<le> 1 * (s ! ?hi - s ! ?lo)"
    using d g1 by (intro mult_right_mono) simp_all
  then show "interpolate s h \<le> s ! ?hi" by (simp add: i)
qed

text \<open>
  Between two virtual indices the interpolated value does not decrease: inside one gap
  it moves along a non-negative slope, and across gaps it passes the sorted values
  between the two indices.
\<close>

lemma interpolate_mono:
  assumes "sorted s" "s \<noteq> []" "0 \<le> h1" "h1 \<le> h2" "h2 \<le> real (length s - 1)"
  shows "interpolate s h1 \<le> interpolate s h2"
proof -
  let ?i = "nat \<lfloor>h1\<rfloor>" and ?j = "nat \<lfloor>h2\<rfloor>"
  have ij: "?i \<le> ?j" using assms(4) by (simp add: floor_mono nat_mono)
  show ?thesis
  proof (cases "?i = ?j")
    case True
    let ?hi = "min (?i + 1) (length s - 1)"
    have lo: "real ?i \<le> h1" using assms(3) by linarith
    have lolen: "?i \<le> length s - 1" using assms lo by linarith
    have hilen: "?hi < length s" using assms(2) by (cases s) auto
    have "?i \<le> ?hi" using lolen by simp
    then have d: "s ! ?i \<le> s ! ?hi" using assms(1) hilen by (simp add: sorted_nth_mono)
    have "interpolate s h2 - interpolate s h1 = (h2 - h1) * (s ! ?hi - s ! ?i)"
      using True by (simp add: interpolate_def Let_def algebra_simps)
    moreover have "0 \<le> (h2 - h1) * (s ! ?hi - s ! ?i)"
      using d assms(4) by simp
    ultimately show ?thesis by linarith
  next
    case False
    then have lt: "?i + 1 \<le> ?j" using ij by simp
    have h2nn: "0 \<le> h2" using assms by simp
    have jlen: "?j \<le> length s - 1" using assms(5) h2nn by linarith
    have jlt: "?j < length s" using jlen assms(2) by (cases s) auto
    have "interpolate s h1 \<le> s ! min (?i + 1) (length s - 1)"
      using assms by (intro interpolate_bounds) simp_all
    also have "min (?i + 1) (length s - 1) = ?i + 1" using lt jlen by simp
    also have "s ! (?i + 1) \<le> s ! ?j" using assms(1) lt jlt by (simp add: sorted_nth_mono)
    also have "s ! ?j \<le> interpolate s h2"
      using assms h2nn by (intro interpolate_bounds) simp_all
    finally show ?thesis .
  qed
qed

lemma quantile_mono:
  assumes "xs \<noteq> []" "0 \<le> q1" "q1 \<le> q2" "q2 \<le> 1"
  shows "interpolate (sort xs) (real (length xs - 1) * q1)
       \<le> interpolate (sort xs) (real (length xs - 1) * q2)"
proof (rule interpolate_mono)
  show "sorted (sort xs)" by simp
  show "sort xs \<noteq> []" using assms(1) by (metis length_sort length_0_conv)
  show "0 \<le> real (length xs - 1) * q1" using assms(2) by simp
  show "real (length xs - 1) * q1 \<le> real (length xs - 1) * q2"
    using assms(3) by (simp add: mult_left_mono)
  have "real (length xs - 1) * q2 \<le> real (length xs - 1) * 1"
    using assms(4) by (intro mult_left_mono) simp_all
  then show "real (length xs - 1) * q2 \<le> real (length (sort xs) - 1)" by simp
qed

section \<open>Properties of the aggregates\<close>

text \<open>What the confidence-interval loop and the key metrics are on a frame with rows.\<close>

lemma ci_loop_eq:
  assumes "df \<noteq> []" "\<forall>c\<in>set cs. 0 \<le> c \<and> c \<le> 100"
  shows "ci_loop df cs = Inr (map (\<lambda>c.
     \<lparr>confidence = c,
      lower_bound = Some (interpolate (sort (map throughput df))
         (real (length df - 1) * ((100 - c) / 2 / 100))),
      upper_bound = Some (interpolate (sort (map throughput df))
         (real (length df - 1) * ((c + (100 - c) / 2) / 100))),
      ci_range = Some (interpolate (sort (map throughput df))
         (real (length df - 1) * ((c + (100 - c) / 2) / 100))
        - interpolate (sort (map throughput df))
         (real (length df - 1) * ((100 - c) / 2 / 100)))\<rparr>) cs)"
  using assms
proof (induction cs)
  case Nil
  then show ?case by simp
next
  case (Cons c cs)
  have c: "0 \<le> c" "c \<le> 100" using Cons.prems(2) by simp_all
  have ql: "quantile (map throughput df) ((100 - c) / 2 / 100)
     = Inr (Some (interpolate (sort (map throughput df)) (real (length df - 1) * ((100 - c) / 2 / 100))))"
    using c Cons.prems(1) by (simp add: quantile_def)
  have qu: "quantile (map throughput df) ((c + (100 - c) / 2) / 100)
     = Inr (Some (interpolate (sort (map throughput df)) (real (length df - 1) * ((c + (100 - c) / 2) / 100))))"
  proof -
    have "0 \<le> c + (100 - c) / 2" using c by argo
    moreover have "c + (100 - c) / 2 \<le> 100" using c by argo
    ultimately have "0 \<le> (c + (100 - c) / 2) / 100" "(c + (100 - c) / 2) / 100 \<le> 1" by simp_all
    then show ?thesis using Cons.prems(1) by (simp add: quantile_def del: divide_le_eq_1)
  qed
  have rest: "ci_loop df cs = Inr (map (\<lambda>c.
     \<lparr>confidence = c,
      lower_bound = Some (interpolate (sort (map throughput df))
         (real (length df - 1) * ((100 - c) / 2 / 100))),
      upper_bound = Some (interpolate (sort (map throughput df))
         (real (length df - 1) * ((c + (100 - c) / 2) / 100))),
      ci_range = Some (interpolate (sort (map throughput df))
         (real (length df - 1) * ((c + (100 - c) / 2) / 100))
        - interpolate (sort (map throughput df))
         (real (length df - 1) * ((100 - c) / 2 / 100)))\<rparr>) cs)"
    using Cons by simp
  have col: "column throughput df = Inr (map throughput df)"
    using Cons.prems(1) by (simp add: column_def)
  show ?case
    unfolding ci_loop.simps Let_def
    by (simp only: col ql qu rest py_bind_def sum.case fsub_def option.case list.map)
qed

lemma key_metrics_Some:
  assumes "df \<noteq> []"
  shows "key_metrics base (Some df) = Inr (Some \<lparr>
          mean_throughput = Some (sum_list (map throughput df) / real (length df)),
          percentile_5 = Some (interpolate (sort (map throughput df)) (real (length df - 1) * (5 / 100))),
          percentile_95 = Some (interpolate (sort (map throughput df)) (real (length df - 1) * (95 / 100))),
          std_throughput = std (map throughput df),
          delta_mean = Some (sum_list (map throughput df) / real (length df) - total_throughput base),
          delta_5 = Some (interpolate (sort (map throughput df)) (real (length df - 1) * (5 / 100)) - total_throughput base),
          delta_95 = Some (interpolate (sort (map throughput df)) (real (length df - 1) * (95 / 100)) - total_throughput base)\<rparr>)"
proof -
  have col: "column throughput df = Inr (map throughput df)"
    using assms by (simp add: column_def)
  have q5: "quantile (map throughput df) (5 / 100)
     = Inr (Some (interpolate (sort (map throughput df)) (real (length df - 1) * (5 / 100))))"
    using assms by (simp add: quantile_def)
  have q95: "quantile (map throughput df) (95 / 100)
     = Inr (Some (interpolate (sort (map throughput df)) (real (length df - 1) * (95 / 100))))"
    using assms by (simp add: quantile_def)
  have m: "mean (map throughput df) = Some (sum_list (map throughput df) / real (length df))"
    using assms by (simp add: mean_def)
  show ?thesis
    unfolding key_metrics_def
    by (simp only: option.case col q5 q95 m py_bind_def sum.case fsub_def)
qed

lemma ci_nested:
  assumes "xs \<noteq> []" "0 \<le> c1" "c1 \<le> c2" "c2 \<le> 100"
  shows "interpolate (sort xs) (real (length xs - 1) * ((100 - c2) / 2 / 100))
       \<le> interpolate (sort xs) (real (length xs - 1) * ((100 - c1) / 2 / 100))"
    and "interpolate (sort xs) (real (length xs - 1) * ((100 - c1) / 2 / 100))
       \<le> interpolate (sort xs) (real (length xs - 1) * ((c1 + (100 - c1) / 2) / 100))"
    and "interpolate (sort xs) (real (length xs - 1) * ((c1 + (100 - c1) / 2) / 100))
       \<le> interpolate (sort xs) (real (length xs - 1) * ((c2 + (100 - c2) / 2) / 100))"
proof -
  define l1 l2 u1 u2 where "l1 = (100 - c1) / 2 / 100" and "l2 = (100 - c2) / 2 / 100"
    and "u1 = (c1 + (100 - c1) / 2) / 100" and "u2 = (c2 + (100 - c2) / 2) / 100"
  have a: "0 \<le> l2" using assms unfolding l2_def by argo
  have b: "l2 \<le> l1" using assms unfolding l1_def l2_def by argo
  have c: "l1 \<le> u1" using assms unfolding l1_def u1_def by argo
  have d: "u1 \<le> u2" using assms unfolding u1_def u2_def by argo
  have e: "u2 \<le> 1" using assms unfolding u2_def by argo
  have "interpolate (sort xs) (real (length xs - 1) * l2)
       \<le> interpolate (sort xs) (real (length xs - 1) * l1)"
    using a b c d e assms(1) by (intro quantile_mono) linarith+
  then show "interpolate (sort xs) (real (length xs - 1) * ((100 - c2) / 2 / 100))
       \<le> interpolate (sort xs) (real (length xs - 1) * ((100 - c1) / 2 / 100))"
    unfolding l1_def l2_def .
  have "interpolate (sort xs) (real (length xs - 1) * l1)
       \<le> interpolate (sort xs) (real (length xs - 1) * u1)"
    using a b c d e assms(1) by (intro quantile_mono) linarith+
  then show "interpolate (sort xs) (real (length xs - 1) * ((100 - c1) / 2 / 100))
       \<le> interpolate (sort xs) (real (length xs - 1) * ((c1 + (100 - c1) / 2) / 100))"
    unfolding l1_def u1_def .
  have "interpolate (sort xs) (real (length xs - 1) * u1)
       \<le> interpolate (sort xs) (real (length xs - 1) * u2)"
    using a b c d e assms(1) by (intro quantile_mono) linarith+
  then show "interpolate (sort xs) (real (length xs - 1) * ((c1 + (100 - c1) / 2) / 100))
       \<le> interpolate (sort xs) (real (length xs - 1) * ((c2 + (100 - c2) / 2) / 100))"
    unfolding u1_def u2_def .
qed

lemma confidence_intervals_Some:
  assumes "df \<noteq> []"
  shows "confidence_intervals (Some df) = Inr (map (\<lambda>c.
     \<lparr>confidence = c,
      lower_bound = Some (interpolate (sort (map throughput df))
         (real (length df - 1) * ((100 - c) / 2 / 100))),
      upper_bound = Some (interpolate (sort (map throughput df))
         (real (length df - 1) * ((c + (100 - c) / 2) / 100))),
      ci_range = Some (interpolate (sort (map throughput df))
         (real (length df - 1) * ((c + (100 - c) / 2) / 100))
        - interpolate (sort (map throughput df))
         (real (length df - 1) * ((100 - c) / 2 / 100)))\<rparr>) confidence_levels)"
proof -
  have "\<forall>c\<in>set confidence_levels. 0 \<le> c \<and> c \<le> 100"
    by (simp add: confidence_levels_def)
  from ci_loop_eq [OF assms this] show ?thesis
    by (simp only: confidence_intervals_def option.case)
qed

text \<open>
  C2 (as amended). On a data frame with at least one row, the 5th percentile of the
  throughput is at most its 95th percentile, and in the confidence-interval table the
  interval of a higher confidence level contains the interval of every lower one. The
  mean is not placed between the two percentiles: see the counterexample below.
\<close>

theorem C2_percentiles_ordered_intervals_nested:
  assumes "df \<noteq> []"
  shows "\<exists>km tbl. key_metrics base (Some df) = Inr (Some km)
     \<and> confidence_intervals (Some df) = Inr tbl
     \<and> (\<exists>p5 p95. percentile_5 km = Some p5 \<and> percentile_95 km = Some p95 \<and> p5 \<le> p95)
     \<and> map confidence tbl = [50, 80, 90, 95, 99]
     \<and> (\<forall>r1\<in>set tbl. \<forall>r2\<in>set tbl. confidence r1 < confidence r2 \<longrightarrow>
          (\<exists>l1 u1 l2 u2. lower_bound r1 = Some l1 \<and> upper_bound r1 = Some u1
             \<and> lower_bound r2 = Some l2 \<and> upper_bound r2 = Some u2
             \<and> l2 \<le> l1 \<and> l1 \<le> u1 \<and> u1 \<le> u2))"
proof -
  let ?xs = "map throughput df"
  have xs: "?xs \<noteq> []" using assms by simp
  have p: "interpolate (sort ?xs) (real (length df - 1) * (5 / 100))
         \<le> interpolate (sort ?xs) (real (length df - 1) * (95 / 100))"
    using quantile_mono [OF xs, of "5 / 100" "95 / 100"] by simp
  have lv: "\<And>c. c \<in> set confidence_levels \<Longrightarrow> 0 \<le> c \<and> c \<le> 100"
    by (auto simp: confidence_levels_def)
  have nest: "\<forall>c1\<in>set confidence_levels. \<forall>c2\<in>set confidence_levels. c1 < c2 \<longrightarrow>
      interpolate (sort ?xs) (real (length df - 1) * ((100 - c2) / 2 / 100))
       \<le> interpolate (sort ?xs) (real (length df - 1) * ((100 - c1) / 2 / 100))
    \<and> interpolate (sort ?xs) (real (length df - 1) * ((100 - c1) / 2 / 100))
       \<le> interpolate (sort ?xs) (real (length df - 1) * ((c1 + (100 - c1) / 2) / 100))
    \<and> interpolate (sort ?xs) (real (length df - 1) * ((c1 + (100 - c1) / 2) / 100))
       \<le> interpolate (sort ?xs) (real (length df - 1) * ((c2 + (100 - c2) / 2) / 100))"
  proof (intro ballI impI)
    fix c1 c2 assume c: "c1 \<in> set confidence_levels" "c2 \<in> set confidence_levels" "c1 < c2"
    have r: "0 \<le> c1" "c1 \<le> c2" "c2 \<le> 100" using lv [OF c(1)] lv [OF c(2)] c(3) by simp_all
    from ci_nested [OF xs r] show "interpolate (sort ?xs) (real (length df - 1) * ((100 - c2) / 2 / 100))
       \<le> interpolate (sort ?xs) (real (length df - 1) * ((100 - c1) / 2 / 100))
    \<and> interpolate (sort ?xs) (real (length df - 1) * ((100 - c1) / 2 / 100))
       \<le> interpolate (sort ?xs) (real (length df - 1) * ((c1 + (100 - c1) / 2) / 100))
    \<and> interpolate (sort ?xs) (real (length df - 1) * ((c1 + (100 - c1) / 2) / 100))
       \<le> interpolate (sort ?xs) (real (length df - 1) * ((c2 + (100 - c2) / 2) / 100))"
      by simp
  qed
  show ?thesis
    unfolding key_metrics_Some [OF assms] confidence_intervals_Some [OF assms]
    using p nest by (simp add: confidence_levels_def comp_def)
qed

theorem C2_percentiles_ordered_intervals_nested_witness:
  "five_trials \<noteq> [] \<and>
   (\<exists>km tbl. key_metrics example_base (Some five_trials) = Inr (Some km)
     \<and> confidence_intervals (Some five_trials) = Inr tbl
     \<and> (\<exists>p5 p95. percentile_5 km = Some p5 \<and> percentile_95 km = Some p95 \<and> p5 \<le> p95)
     \<and> map confidence tbl = [50, 80, 90, 95, 99]
     \<and> (\<forall>r1\<in>set tbl. \<forall>r2\<in>set tbl. confidence r1 < confidence r2 \<longrightarrow>
          (\<exists>l1 u1 l2 u2. lower_bound r1 = Some l1 \<and> upper_bound r1 = Some u1
             \<and> lower_bound r2 = Some l2 \<and> upper_bound r2 = Some u2
             \<and> l2 \<le> l1 \<and> l1 \<le> u1 \<and> u1 \<le> u2)))
   \<and> confidence_intervals (Some five_trials) = Inr
      [\<lparr>confidence = 50, lower_bound = Some 2000, upper_bound = Some 4000, ci_range = Some 2000\<rparr>,
       \<lparr>confidence = 80, lower_bound = Some 1400, upper_bound = Some 4600, ci_range = Some 3200\<rparr>,
       \<lparr>confidence = 90, lower_bound = Some 1200, upper_bound = Some 4800, ci_range = Some 3600\<rparr>,
       \<lparr>confidence = 95, lower_bound = Some 1100, upper_bound = Some 4900, ci_range = Some 3800\<rparr>,
       \<lparr>confidence = 99, lower_bound = Some 1020, upper_bound = Some 4980, ci_range = Some 3960\<rparr>]"
proof -
  have ne: "five_trials \<noteq> []" by (simp add: five_trials_def)
  have tbl: "confidence_intervals (Some five_trials) = Inr
      [\<lparr>confidence = 50, lower_bound = Some 2000, upper_bound = Some 4000, ci_range = Some 2000\<rparr>,
       \<lparr>confidence = 80, lower_bound = Some 1400, upper_bound = Some 4600, ci_range = Some 3200\<rparr>,
       \<lparr>confidence = 90, lower_bound = Some 1200, upper_bound = Some 4800, ci_range = Some 3600\<rparr>,
       \<lparr>confidence = 95, lower_bound = Some 1100, upper_bound = Some 4900, ci_range = Some 3800\<rparr>,
       \<lparr>confidence = 99, lower_bound = Some 1020, upper_bound = Some 4980, ci_range = Some 3960\<rparr>]"
    by (simp add: confidence_intervals_def confidence_levels_def five_trials_def example_row_def
        column_def py_bind_def quantile_def interpolate_def fsub_def)
  from ne C2_percentiles_ordered_intervals_nested [OF ne, of example_base] tbl
  show ?thesis by (intro conjI)
qed

text \<open>
  C2 as stated fails. Of ninety-six trials at 5000 and four at 6000 the mean is 5040,
  above the 95th percentile 5000; of four trials at 9000 and ninety-six at 9300 the mean
  is 9288, below the 5th percentile 9300.
\<close>

theorem C2_mean_outside_percentiles:
  "map_sum id (map_option mean_throughput) (key_metrics example_base (Some mostly_low))
     = Inr (Some (Some 5040))
 \<and> map_sum id (map_option percentile_95) (key_metrics example_base (Some mostly_low))
     = Inr (Some (Some 5000))
 \<and> map_sum id (map_option percentile_5) (key_metrics example_base (Some mostly_high))
     = Inr (Some (Some 9300))
 \<and> map_sum id (map_option mean_throughput) (key_metrics example_base (Some mostly_high))
     = Inr (Some (Some 9288))"
  by (simp add: key_metrics_def mostly_low_def mostly_high_def example_row_def column_def
      py_bind_def quantile_def mean_def interpolate_def numeral_eq_Suc)

text \<open>
  C3. On a data frame with at least one row, the confidence-interval table has one row
  for each of the levels 50, 80, 90, 95 and 99; the lower bound of level \<open>c\<close> is the
  quantile at \<open>(100 - c) / 2\<close> percent and the upper bound the quantile at
  \<open>100 - (100 - c) / 2\<close> percent of the throughput, computed by the same
  linear-interpolation \<open>quantile\<close> that gives the key metrics' 5th and 95th percentiles.
\<close>

theorem C3_confidence_interval_bounds:
  assumes "df \<noteq> []"
  shows "\<exists>tbl km. confidence_intervals (Some df) = Inr tbl
     \<and> key_metrics base (Some df) = Inr (Some km)
     \<and> map confidence tbl = [50, 80, 90, 95, 99]
     \<and> (\<forall>r\<in>set tbl.
           quantile (map throughput df) ((100 - confidence r) / 2 / 100) = Inr (lower_bound r)
         \<and> quantile (map throughput df) ((100 - (100 - confidence r) / 2) / 100) = Inr (upper_bound r)
         \<and> lower_bound r \<noteq> None \<and> upper_bound r \<noteq> None)
     \<and> quantile (map throughput df) (5 / 100) = Inr (percentile_5 km)
     \<and> quantile (map throughput df) (95 / 100) = Inr (percentile_95 km)
     \<and> percentile_5 km \<noteq> None \<and> percentile_95 km \<noteq> None"
  unfolding key_metrics_Some [OF assms] confidence_intervals_Some [OF assms]
  using assms by (simp add: confidence_levels_def quantile_def mult.commute)

theorem C3_confidence_interval_bounds_witness:
  "five_trials \<noteq> [] \<and>
   (\<exists>tbl km. confidence_intervals (Some five_trials) = Inr tbl
     \<and> key_metrics example_base (Some five_trials) = Inr (Some km)
     \<and> map confidence tbl = [50, 80, 90, 95, 99]
     \<and> (\<forall>r\<in>set tbl.
           quantile (map throughput five_trials) ((100 - confidence r) / 2 / 100) = Inr (lower_bound r)
         \<and> quantile (map throughput five_trials) ((100 - (100 - confidence r) / 2) / 100) = Inr (upper_bound r)
         \<and> lower_bound r \<noteq> None \<and> upper_bound r \<noteq> None)
     \<and> quantile (map throughput five_trials) (5 / 100) = Inr (percentile_5 km)
     \<and> quantile (map throughput five_trials) (95 / 100) = Inr (percentile_95 km)
     \<and> percentile_5 km \<noteq> None \<and> percentile_95 km \<noteq> None)
   \<and> quantile (map throughput five_trials) (5 / 100) = Inr (Some 1200)
   \<and> quantile (map throughput five_trials) (95 / 100) = Inr (Some 4800)"
proof -
  have ne: "five_trials \<noteq> []" by (simp add: five_trials_def)
  have q: "quantile (map throughput five_trials) (5 / 100) = Inr (Some 1200)"
    "quantile (map throughput five_trials) (95 / 100) = Inr (Some 4800)"
    by (simp_all add: five_trials_def example_row_def quantile_def interpolate_def)
  from ne C3_confidence_interval_bounds [OF ne, of example_base] q
  show ?thesis by (intro conjI)
qed

section \<open>Properties of the probability calculator and the insights\<close>

lemma column_rows: "df \<noteq> [] \<Longrightarrow> column key df = Inr (map key df)"
  by (simp add: column_def)

lemma sum_list_indicator:
  "sum_list (map (\<lambda>b. if b then 1 else (0::real)) (map P xs)) = real (length (filter P xs))"
  by (induction xs) simp_all

lemma bool_mean_fraction:
  "xs \<noteq> [] \<Longrightarrow> bool_mean (map P xs) = Some (real (length (filter P xs)) / real (length xs))"
  using sum_list_indicator [of P xs] by (simp add: bool_mean_def mean_def)

lemma filter_complement_length:
  "length (filter (\<lambda>x. t \<le> (x::real)) xs) + length (filter (\<lambda>x. x < t) xs) = length xs"
proof -
  have "(\<lambda>x. x < t) = (\<lambda>x. \<not> t \<le> x)" by (auto simp: fun_eq_iff)
  then show ?thesis using sum_length_filter_compl [of "\<lambda>x. t \<le> x" xs] by simp
qed

lemma probability_result_Some:
  assumes "df \<noteq> []"
  shows "probability_result base target (Some df) = Inr (Some \<lparr>
           target_used = default_target base target,
           prob_exceed = Some (real (length (filter (\<lambda>x. default_target base target \<le> x) (map throughput df)))
              / real (length df) * 100),
           prob_below = Some (real (length (filter (\<lambda>x. x < default_target base target) (map throughput df)))
              / real (length df) * 100)\<rparr>)"
  using assms
  by (simp add: probability_result_def Let_def column_rows py_bind_def bool_mean_fraction fmul_def)

text \<open>
  C4 (as amended). On a data frame with at least one row, the probability of achieving or
  exceeding is the percentage of trials whose throughput is at least the target, the
  probability of falling short is the percentage of trials below it, and the two add up
  to 100. When the target input is empty or 0, the target used is the baseline's
  throughput truncated to an integer (\<open>int(...)\<close>); otherwise it is the input.
\<close>

theorem C4_probability_complement:
  assumes "df \<noteq> []"
  shows "\<exists>pr e b. probability_result base target (Some df) = Inr (Some pr)
     \<and> prob_exceed pr = Some e \<and> prob_below pr = Some b
     \<and> e = real (length (filter (\<lambda>r. target_used pr \<le> throughput r) df)) / real (length df) * 100
     \<and> b = real (length (filter (\<lambda>r. throughput r < target_used pr) df)) / real (length df) * 100
     \<and> e + b = 100
     \<and> target_used pr =
         (case target of
            None \<Rightarrow> real_of_int (py_int (total_throughput base))
          | Some t \<Rightarrow> if t = 0 then real_of_int (py_int (total_throughput base)) else t)"
proof -
  let ?t = "default_target base target"
  let ?xs = "map throughput df"
  have n: "real (length df) \<noteq> 0" using assms by simp
  have "real (length (filter (\<lambda>x. ?t \<le> x) ?xs)) + real (length (filter (\<lambda>x. x < ?t) ?xs))
      = real (length df)"
    using filter_complement_length [of ?t ?xs] by (simp flip: of_nat_add)
  then have s: "real (length (filter (\<lambda>x. ?t \<le> x) ?xs)) / real (length df) * 100
       + real (length (filter (\<lambda>x. x < ?t) ?xs)) / real (length df) * 100 = 100"
    using n by (simp add: field_simps)
  show ?thesis
    unfolding probability_result_Some [OF assms]
    using s by (simp add: filter_map comp_def default_target_def)
qed

theorem C4_probability_complement_witness:
  "five_trials \<noteq> []
   \<and> map_sum id (map_option prob_exceed) (probability_result example_base None (Some five_trials))
       = Inr (Some (Some 60))
   \<and> map_sum id (map_option prob_below) (probability_result example_base None (Some five_trials))
       = Inr (Some (Some 40))
   \<and> map_sum id (map_option target_used) (probability_result example_base None (Some five_trials))
       = Inr (Some 3000)"
proof -
  have ne: "five_trials \<noteq> []" by (simp add: five_trials_def)
  from C4_probability_complement [OF ne, of example_base None] ne
  show ?thesis
    by (auto simp: five_trials_def example_row_def example_base_def py_int_def)
qed

text \<open>
  C4 as stated fails: with a baseline throughput of 1000.5 and no target set, the target
  used is 1000, not the baseline's throughput.
\<close>

theorem C4_default_target_truncated:
  "total_throughput fractional_base = 2001 / 2
   \<and> map_sum id (map_option target_used)
        (probability_result fractional_base None (Some fractional_run)) = Inr (Some 1000)"
  by (simp add: probability_result_def default_target_def py_int_def fractional_base_def
      fractional_run_def column_def py_bind_def)

lemma value_counts_Nil_iff: "value_counts xs = [] \<longleftrightarrow> xs = []"
proof -
  have "set (first_seen xs) = set xs" by (simp add: first_seen_def)
  then have "first_seen xs = [] \<longleftrightarrow> xs = []" by (metis set_empty)
  moreover have "length (value_counts xs) = length (first_seen xs)"
    by (simp add: value_counts_def)
  ultimately show ?thesis by (metis length_0_conv)
qed

lemma insights_b_Some:
  assumes "df \<noteq> []"
  shows "insights_b base (Some df) = Inr (Some \<lparr>
     mean_vs_baseline = Some (sum_list (map throughput df) / real (length df) - total_throughput base),
     prob_above_baseline =
       Some (real (length (filter (\<lambda>x. total_throughput base < x) (map throughput df)))
              / real (length df) * 100),
     worst_case = Some (interpolate (sort (map throughput df)) (real (length df - 1) * (5 / 100))),
     worst_case_pct = pct_of_baseline
       (Some (interpolate (sort (map throughput df)) (real (length df - 1) * (5 / 100))))
       (total_throughput base),
     best_case = Some (interpolate (sort (map throughput df)) (real (length df - 1) * (95 / 100))),
     best_case_pct = pct_of_baseline
       (Some (interpolate (sort (map throughput df)) (real (length df - 1) * (95 / 100))))
       (total_throughput base),
     most_common_bottleneck = fst (hd (value_counts (map row_bottleneck df))),
     bottleneck_pct =
       Some (real (snd (hd (value_counts (map row_bottleneck df)))) / real (length df) * 100)\<rparr>)"
proof -
  have q5: "quantile (map throughput df) (5 / 100)
     = Inr (Some (interpolate (sort (map throughput df)) (real (length df - 1) * (5 / 100))))"
    using assms by (simp add: quantile_def)
  have q95: "quantile (map throughput df) (95 / 100)
     = Inr (Some (interpolate (sort (map throughput df)) (real (length df - 1) * (95 / 100))))"
    using assms by (simp add: quantile_def)
  have m: "mean (map throughput df) = Some (sum_list (map throughput df) / real (length df))"
    using assms by (simp add: mean_def)
  have bm: "bool_mean (map (\<lambda>x. total_throughput base < x) (map throughput df))
     = Some (real (length (filter (\<lambda>x. total_throughput base < x) (map throughput df)))
              / real (length df))"
    using assms bool_mean_fraction [of "map throughput df" "\<lambda>x. total_throughput base < x"]
    by simp
  obtain b c rest where vc: "value_counts (map row_bottleneck df) = (b, c) # rest"
    using assms value_counts_Nil_iff [of "map row_bottleneck df"]
    by (cases "value_counts (map row_bottleneck df)") auto
  have n: "real (length df) \<noteq> 0" using assms by simp
  have d: "fdiv (Some (real c)) (Some (real (length df))) = Some (real c / real (length df))"
    using n by (simp add: fdiv_def)
  show ?thesis
    unfolding insights_b_def
    by (simp only: option.case column_rows [OF assms] q5 q95 m bm vc d py_bind_def sum.case
        fsub_def fmul_def list.case prod.case list.sel fst_conv snd_conv)
qed





text \<open>
  C8. A run of zero trials stores the data frame of the empty list, which has no
  \<open>throughput\<close> column: the key metrics (mean, standard deviation, percentiles), the
  confidence intervals, the probability calculator and the insights (with the bottleneck
  frequency) all fail with \<open>KeyError\<close>; none of them returns a number.
\<close>

theorem C8_empty_dataset_fails:
  "run_simulation orc (inp\<lparr>n_sims := 0\<rparr>) rng = Inr []
   \<and> key_metrics base (Some []) = Inl KeyError
   \<and> confidence_intervals (Some []) = Inl KeyError
   \<and> probability_result base target (Some []) = Inl KeyError
   \<and> insights_b base (Some []) = Inl KeyError"
  by (simp add: run_simulation_def key_metrics_def confidence_intervals_def confidence_levels_def
      probability_result_def insights_b_def column_def py_bind_def)

section \<open>Zero uncertainty\<close>

lemma run_trials_const:
  assumes "\<forall>z\<in>set zs. run_trial orc inp z = Inr r"
  shows "run_trials orc inp zs = Inr (replicate (length zs) r)"
  using assms by (induction zs) (simp_all add: py_bind_def)

lemma sample_at_floors:
  assumes "floors_hold (base_params inp)"
    "demand_unc inp = 0" "capacity_unc inp = 0" "price_unc inp = 0"
  shows "sample inp z = Inr (base_params inp)"
  using assms
  by (simp add: sample_def floors_hold_def base_params_def normal_def py_bind_def max_def)

text \<open>Every slider of the source starts at or above the floor of its parameter.\<close>

lemma slider_inputs_floors: "slider_inputs inp \<Longrightarrow> floors_hold (base_params inp)"
  by (simp add: slider_inputs_def slider_def floors_hold_def base_params_def)

lemma std_replicate:
  assumes "2 \<le> n"
  shows "std (replicate n x) = Some 0"
proof -
  have "sum_list (replicate n x) / real n = x" using assms by (simp add: sum_list_replicate)
  then show ?thesis using assms by (simp add: std_def Let_def sum_list_replicate)
qed

text \<open>
  C9 (as amended). With the three uncertainty percentages at 0 and every base value at or
  above its floor (demands at least 0, capacities at least 50, profits at least 10), every
  trial samples exactly the base parameters, the run stores \<open>n_sims\<close> rows, every row is
  the baseline evaluation's row (so its throughput is the baseline's), and with two trials
  or more the standard deviation of the throughput column is 0.
\<close>

theorem C9_zero_uncertainty:
  assumes "floors_hold (base_params inp)"
    "demand_unc inp = 0" "capacity_unc inp = 0" "price_unc inp = 0"
  shows "\<exists>df. run_simulation orc inp rng = Inr df
     \<and> length df = n_sims inp
     \<and> (\<forall>i<n_sims inp. sample inp (rng i) = Inr (base_params inp))
     \<and> baseline orc inp = orc (base_params inp)
     \<and> (\<forall>r\<in>set df. r = result_row (baseline orc inp)
           \<and> throughput r = total_throughput (baseline orc inp))
     \<and> (2 \<le> n_sims inp \<longrightarrow> std (map throughput df) = Some 0)"
proof -
  let ?r = "result_row (baseline orc inp)"
  have b: "baseline orc inp = orc (base_params inp)"
    by (simp add: baseline_def base_params_def)
  have t: "run_trial orc inp z = Inr ?r" for z
    by (simp add: run_trial_def sample_at_floors [OF assms] py_bind_def b)
  have run: "run_simulation orc inp rng = Inr (replicate (n_sims inp) ?r)"
    using run_trials_const [of "map rng [0..<n_sims inp]" orc inp ?r] t
    by (simp add: run_simulation_def)
  have s: "std (map throughput (replicate (n_sims inp) ?r)) = Some 0" if "2 \<le> n_sims inp"
    using std_replicate [OF that] by simp
  show ?thesis
    unfolding run using s sample_at_floors [OF assms] b by (simp add: result_row_def)
qed

theorem C9_zero_uncertainty_witness:
  "floors_hold (base_params certain_inputs) \<and> demand_unc certain_inputs = 0
   \<and> capacity_unc certain_inputs = 0 \<and> price_unc certain_inputs = 0
   \<and> slider_inputs certain_inputs
   \<and> 2 \<le> n_sims certain_inputs
   \<and> (\<exists>df. run_simulation sell_demand certain_inputs (\<lambda>i. low_draws) = Inr df
     \<and> length df = n_sims certain_inputs
     \<and> (\<forall>i<n_sims certain_inputs. sample certain_inputs low_draws = Inr (base_params certain_inputs))
     \<and> baseline sell_demand certain_inputs = sell_demand (base_params certain_inputs)
     \<and> (\<forall>r\<in>set df. r = result_row (baseline sell_demand certain_inputs)
           \<and> throughput r = total_throughput (baseline sell_demand certain_inputs))
     \<and> (2 \<le> n_sims certain_inputs \<longrightarrow> std (map throughput df) = Some 0))
   \<and> total_throughput (baseline sell_demand certain_inputs) = 9300
   \<and> run_trial sell_demand certain_inputs low_draws
       = Inr \<lparr>throughput = 9300, row_product_a = 50, row_product_b = 80,
              row_bottleneck = ''heat_treatment'', ht_utilization = 100\<rparr>"
proof -
  have sl: "slider_inputs certain_inputs"
    by (simp add: certain_inputs_def default_inputs_def slider_inputs_def slider_def)
  have h: "floors_hold (base_params certain_inputs)" "demand_unc certain_inputs = 0"
    "capacity_unc certain_inputs = 0" "price_unc certain_inputs = 0"
    by (simp_all add: certain_inputs_def default_inputs_def floors_hold_def base_params_def)
  have n: "2 \<le> n_sims certain_inputs"
    by (simp add: certain_inputs_def default_inputs_def)
  have b: "total_throughput (baseline sell_demand certain_inputs) = 9300"
    by (simp add: baseline_def sell_demand_def certain_inputs_def default_inputs_def)
  have t: "run_trial sell_demand certain_inputs low_draws
       = Inr \<lparr>throughput = 9300, row_product_a = 50, row_product_b = 80,
              row_bottleneck = ''heat_treatment'', ht_utilization = 100\<rparr>"
    by (simp add: run_trial_def sample_def normal_def py_bind_def result_row_def sell_demand_def
        certain_inputs_def default_inputs_def low_draws_def)
  from h sl n C9_zero_uncertainty [OF h, of sell_demand "\<lambda>i. low_draws"] b t
  show ?thesis by (intro conjI)
qed

text \<open>
  C9 as stated fails: with zero uncertainty, a base heat-treatment capacity of 40 and a
  base profit of 5 are sampled as 50 and 10, and the trial's throughput is 5300 against
  the baseline's 5050.
\<close>

theorem C9_base_below_floor:
  "demand_unc below_floor_inputs = 0 \<and> capacity_unc below_floor_inputs = 0
   \<and> price_unc below_floor_inputs = 0
   \<and> base_params below_floor_inputs =
       \<lparr>heat_treatment_capacity = 40, machining_capacity = 200, assembly_capacity = 180,
        demand_a = 50, demand_b = 80, profit_a = 5, profit_b = 60\<rparr>
   \<and> sample below_floor_inputs low_draws =
       Inr \<lparr>heat_treatment_capacity = 50, machining_capacity = 200, assembly_capacity = 180,
            demand_a = 50, demand_b = 80, profit_a = 10, profit_b = 60\<rparr>
   \<and> run_trial sell_demand below_floor_inputs low_draws =
       Inr \<lparr>throughput = 5300, row_product_a = 50, row_product_b = 80,
            row_bottleneck = ''heat_treatment'', ht_utilization = 100\<rparr>
   \<and> total_throughput (baseline sell_demand below_floor_inputs) = 5050"
  by (simp add: below_floor_inputs_def certain_inputs_def default_inputs_def base_params_def
      low_draws_def sample_def normal_def py_bind_def run_trial_def result_row_def
      sell_demand_def baseline_def)

section \<open>Properties of the scenario comparison\<close>

lemma insights_a_Inr:
  assumes "u \<noteq> []"
  shows "\<exists>out. insights_a rs u = Inr out
     \<and> best_throughput out
         = max3 (total_throughput (s1 rs)) (total_throughput (s2 rs)) (total_throughput (s3 rs))
     \<and> improvement out = best_throughput out - total_throughput (s1 rs)
     \<and> improvement_pct out =
         (if total_throughput (s1 rs) > 0
          then improvement out / total_throughput (s1 rs) * 100 else 0)
     \<and> bottleneck_box out =
         (if length u > 1 then Bottleneck_Shift u else Consistent_Bottleneck (hd u))"
proof -
  obtain x xs where u: "u = x # xs" using assms by (cases u) auto
  show ?thesis
    by (simp add: insights_a_def Let_def py_bind_def py_nth_def bottleneck_report_def max3_def u)
      (auto simp: max_def)
qed


lemma distinct_singleton: "distinct u \<Longrightarrow> set u = {b} \<Longrightarrow> u = [b]"
  by (cases u) (auto simp: insert_eq_iff dest: subset_singletonD)

lemma distinct_pair:
  assumes "distinct u" "set u = {a, b}" "a \<noteq> b"
  shows "u = [a, b] \<or> u = [b, a]"
proof -
  have "length u = 2" using assms distinct_card [of u] by simp
  then obtain x y where u: "u = [x, y]"
    by (cases u; cases "tl u") auto
  with assms show ?thesis by (auto simp: doubleton_eq_iff)
qed

text \<open>
  C5 (as amended). Whatever order the set of bottlenecks is iterated in, the insights
  report a consistent bottleneck with the single value when the three bottlenecks are
  equal, and otherwise a bottleneck shift that lists each distinct bottleneck once; for
  machining, machining, assembly the list is machining, assembly or assembly, machining.
\<close>

theorem C5_bottleneck_report:
  assumes "set_listing (bottlenecks_of rs) u"
  shows "\<exists>out. insights_a rs u = Inr out
     \<and> (bottleneck (s1 rs) = bottleneck (s2 rs) \<and> bottleneck (s2 rs) = bottleneck (s3 rs)
          \<longrightarrow> bottleneck_box out = Consistent_Bottleneck (bottleneck (s1 rs)))
     \<and> (\<not> (bottleneck (s1 rs) = bottleneck (s2 rs) \<and> bottleneck (s2 rs) = bottleneck (s3 rs))
          \<longrightarrow> bottleneck_box out = Bottleneck_Shift u \<and> distinct u
              \<and> set u = {bottleneck (s1 rs), bottleneck (s2 rs), bottleneck (s3 rs)})
     \<and> (bottlenecks_of rs = [''machining'', ''machining'', ''assembly'']
          \<longrightarrow> bottleneck_box out = Bottleneck_Shift [''machining'', ''assembly'']
              \<or> bottleneck_box out = Bottleneck_Shift [''assembly'', ''machining''])"
proof -
  let ?b1 = "bottleneck (s1 rs)" and ?b2 = "bottleneck (s2 rs)" and ?b3 = "bottleneck (s3 rs)"
  have d: "distinct u" and su: "set u = {?b1, ?b2, ?b3}"
    using assms by (auto simp: set_listing_def bottlenecks_of_def)
  have ne: "u \<noteq> []" using su by auto
  obtain out where out: "insights_a rs u = Inr out"
    and box: "bottleneck_box out =
         (if length u > 1 then Bottleneck_Shift u else Consistent_Bottleneck (hd u))"
    using insights_a_Inr [OF ne, of rs] by blast
  have same: "bottleneck_box out = Consistent_Bottleneck ?b1" if "?b1 = ?b2" "?b2 = ?b3"
  proof -
    have "u = [?b1]" using d su that by (intro distinct_singleton) simp_all
    then show ?thesis using box by simp
  qed
  have shift: "bottleneck_box out = Bottleneck_Shift u" if "\<not> (?b1 = ?b2 \<and> ?b2 = ?b3)"
  proof -
    have "length u \<noteq> 1"
    proof
      assume "length u = 1"
      then obtain x where "u = [x]" by (cases u) auto
      with su that show False by auto
    qed
    with ne have "length u > 1" by (cases u) auto
    then show ?thesis using box by simp
  qed
  have ex: "bottleneck_box out = Bottleneck_Shift [''machining'', ''assembly'']
              \<or> bottleneck_box out = Bottleneck_Shift [''assembly'', ''machining'']"
    if "bottlenecks_of rs = [''machining'', ''machining'', ''assembly'']"
  proof -
    have b: "?b1 = ''machining''" "?b2 = ''machining''" "?b3 = ''assembly''"
      using that by (simp_all add: bottlenecks_of_def)
    have "set u = {''machining'', ''assembly''}" using su b by auto
    then have "u = [''machining'', ''assembly''] \<or> u = [''assembly'', ''machining'']"
      using d by (intro distinct_pair) simp_all
    moreover have "bottleneck_box out = Bottleneck_Shift u" using shift b by simp
    ultimately show ?thesis by auto
  qed
  show ?thesis using out same shift ex d su by blast
qed

theorem C5_bottleneck_report_witness:
  "set_listing (bottlenecks_of tied_results) [''machining'', ''assembly'']
   \<and> map_sum id bottleneck_box (insights_a tied_results [''machining'', ''assembly''])
       = Inr (Bottleneck_Shift [''machining'', ''assembly''])"
proof -
  have l: "set_listing (bottlenecks_of tied_results) [''machining'', ''assembly'']"
    by (simp add: set_listing_def bottlenecks_of_def tied_results_def)
  have b: "bottleneck (s2 tied_results) \<noteq> bottleneck (s3 tied_results)"
    by (simp add: tied_results_def)
  from C5_bottleneck_report [OF l] obtain out
    where o: "insights_a tied_results [''machining'', ''assembly''] = Inr out"
      and sh: "\<not> (bottleneck (s1 tied_results) = bottleneck (s2 tied_results)
                 \<and> bottleneck (s2 tied_results) = bottleneck (s3 tied_results))
          \<longrightarrow> bottleneck_box out = Bottleneck_Shift [''machining'', ''assembly'']"
    by blast
  from sh b have "bottleneck_box out = Bottleneck_Shift [''machining'', ''assembly'']" by blast
  with o l show ?thesis by (simp only: map_sum.simps simp_thms)
qed

text \<open>
  C5 as stated fails: the list is built from a set, so for the bottlenecks machining,
  machining, assembly the shift may list assembly before machining, which is not the
  first-seen order.
\<close>

theorem C5_shift_not_first_seen:
  "set_listing (bottlenecks_of tied_results) [''assembly'', ''machining'']
   \<and> map_sum id bottleneck_box (insights_a tied_results [''assembly'', ''machining''])
       = Inr (Bottleneck_Shift [''assembly'', ''machining''])
   \<and> first_seen (bottlenecks_of tied_results) = [''machining'', ''assembly'']"
  by (simp add: set_listing_def bottlenecks_of_def tied_results_def insights_a_def Let_def
      py_bind_def py_nth_def bottleneck_report_def first_seen_def insert_commute)

text \<open>
  C6. A scenario's card is marked best exactly when no other scenario has a higher
  throughput, so tied scenarios are all marked. For the throughputs 1000, 1200, 1200 the
  cards of scenarios 2 and 3 are marked best and that of scenario 1 is not, and the
  insights (which name the first of the tied scenarios) show an improvement of 200, that
  is 20 percent, over scenario 1.
\<close>

theorem C6_tied_best:
  "(is_best (scenario1_card rs) \<longleftrightarrow>
      total_throughput (s2 rs) \<le> total_throughput (s1 rs)
      \<and> total_throughput (s3 rs) \<le> total_throughput (s1 rs))
   \<and> (is_best (scenario2_card rs) \<longleftrightarrow>
      total_throughput (s1 rs) \<le> total_throughput (s2 rs)
      \<and> total_throughput (s3 rs) \<le> total_throughput (s2 rs))
   \<and> (is_best (scenario3_card rs) \<longleftrightarrow>
      total_throughput (s1 rs) \<le> total_throughput (s3 rs)
      \<and> total_throughput (s2 rs) \<le> total_throughput (s3 rs))
   \<and> (total_throughput (s1 rs) = 1000 \<and> total_throughput (s2 rs) = 1200
        \<and> total_throughput (s3 rs) = 1200 \<and> set_listing (bottlenecks_of rs) u
      \<longrightarrow> \<not> is_best (scenario1_card rs) \<and> is_best (scenario2_card rs)
          \<and> is_best (scenario3_card rs)
          \<and> (\<exists>out. insights_a rs u = Inr out
                \<and> best_name out = name (s2 rs) \<and> best_throughput out = 1200
                \<and> improvement_shown out
                \<and> improvement out = 200 \<and> improvement_pct out = 20))"
proof -
  have cards: "(is_best (scenario1_card rs) \<longleftrightarrow>
      total_throughput (s2 rs) \<le> total_throughput (s1 rs)
      \<and> total_throughput (s3 rs) \<le> total_throughput (s1 rs))"
    "(is_best (scenario2_card rs) \<longleftrightarrow>
      total_throughput (s1 rs) \<le> total_throughput (s2 rs)
      \<and> total_throughput (s3 rs) \<le> total_throughput (s2 rs))"
    "(is_best (scenario3_card rs) \<longleftrightarrow>
      total_throughput (s1 rs) \<le> total_throughput (s3 rs)
      \<and> total_throughput (s2 rs) \<le> total_throughput (s3 rs))"
    by (auto simp: scenario1_card_def scenario2_card_def scenario3_card_def max3_def max_def)
  have ins: "\<exists>out. insights_a rs u = Inr out
                \<and> best_name out = name (s2 rs) \<and> best_throughput out = 1200
                \<and> improvement_shown out
                \<and> improvement out = 200 \<and> improvement_pct out = 20"
    if t: "total_throughput (s1 rs) = 1000" "total_throughput (s2 rs) = 1200"
      "total_throughput (s3 rs) = 1200" and l: "set_listing (bottlenecks_of rs) u"
  proof -
    have "set u \<noteq> {}" using l by (simp add: set_listing_def bottlenecks_of_def)
    then obtain x xs where u: "u = x # xs" by (cases u) auto
    show ?thesis
      by (simp add: insights_a_def Let_def py_bind_def py_nth_def bottleneck_report_def t u)
  qed
  show ?thesis using cards ins by simp
qed

theorem C6_tied_best_witness:
  "set_listing (bottlenecks_of tied_results) [''machining'', ''assembly'']
   \<and> \<not> is_best (scenario1_card tied_results)
   \<and> is_best (scenario2_card tied_results)
   \<and> is_best (scenario3_card tied_results)
   \<and> map_sum id improvement (insights_a tied_results [''machining'', ''assembly'']) = Inr 200
   \<and> map_sum id improvement_pct (insights_a tied_results [''machining'', ''assembly'']) = Inr 20
   \<and> map_sum id best_name (insights_a tied_results [''machining'', ''assembly''])
        = Inr ''Elevate Bottleneck''"
proof -
  have l: "set_listing (bottlenecks_of tied_results) [''machining'', ''assembly'']"
    by (simp add: set_listing_def bottlenecks_of_def tied_results_def)
  have t: "total_throughput (s1 tied_results) = 1000" "total_throughput (s2 tied_results) = 1200"
    "total_throughput (s3 tied_results) = 1200" "name (s2 tied_results) = ''Elevate Bottleneck''"
    by (simp_all add: tied_results_def)
  from C6_tied_best [of tied_results "[''machining'', ''assembly'']"] l t
  show ?thesis by auto
qed

section \<open>Deltas against the baseline\<close>

lemma count_list_replicate: "count_list (replicate n x) x = n"
  by (induction n) simp_all

lemma remdups_replicate: "remdups (replicate (Suc n) x) = [x]"
  by (induction n) simp_all

lemma value_counts_replicate: "value_counts (replicate (Suc n) x) = [(x, Suc n)]"
proof -
  have "first_seen (replicate (Suc n) x) = [x]"
    unfolding first_seen_def rev_replicate remdups_replicate by simp
  then show ?thesis
    unfolding value_counts_def using count_list_replicate [of "Suc n" x] by simp
qed

text \<open>
  C7 (as amended). On a data frame with at least one row and for every baseline, the key
  metrics and the insights are produced: the key metrics give the mean, the 5th and the
  95th percentile of the throughput together with their differences from the baseline's
  throughput; the insights give the mean's difference and, when the baseline's throughput
  is not 0, the two percentiles (not the mean) as a percentage above or below the
  baseline's throughput. In the scenario comparison the improvement's percentage is
  guarded: it is 0 when the first scenario's throughput is not positive.
\<close>

theorem C7_deltas_and_percentages:
  assumes "df \<noteq> []"
  shows "\<exists>km ins m p5 p95. key_metrics base (Some df) = Inr (Some km)
     \<and> insights_b base (Some df) = Inr (Some ins)
     \<and> mean (map throughput df) = Some m
     \<and> quantile (map throughput df) (5 / 100) = Inr (Some p5)
     \<and> quantile (map throughput df) (95 / 100) = Inr (Some p95)
     \<and> mean_throughput km = Some m \<and> percentile_5 km = Some p5 \<and> percentile_95 km = Some p95
     \<and> delta_mean km = Some (m - total_throughput base)
     \<and> delta_5 km = Some (p5 - total_throughput base)
     \<and> delta_95 km = Some (p95 - total_throughput base)
     \<and> mean_vs_baseline ins = Some (m - total_throughput base)
     \<and> worst_case ins = Some p5 \<and> best_case ins = Some p95
     \<and> (total_throughput base \<noteq> 0 \<longrightarrow>
           worst_case_pct ins = Some ((p5 / total_throughput base - 1) * 100)
         \<and> best_case_pct ins = Some ((p95 / total_throughput base - 1) * 100))
     \<and> (u \<noteq> [] \<longrightarrow> (\<exists>out. insights_a rs u = Inr out
           \<and> improvement out = best_throughput out - total_throughput (s1 rs)
           \<and> improvement_pct out =
               (if total_throughput (s1 rs) > 0
                then improvement out / total_throughput (s1 rs) * 100 else 0)))"
proof -
  have a: "u \<noteq> [] \<longrightarrow> (\<exists>out. insights_a rs u = Inr out
           \<and> improvement out = best_throughput out - total_throughput (s1 rs)
           \<and> improvement_pct out =
               (if total_throughput (s1 rs) > 0
                then improvement out / total_throughput (s1 rs) * 100 else 0))"
    using insights_a_Inr [of u rs] by blast
  have m: "mean (map throughput df) = Some (sum_list (map throughput df) / real (length df))"
    using assms by (simp add: mean_def)
  have q5: "quantile (map throughput df) (5 / 100)
     = Inr (Some (interpolate (sort (map throughput df)) (real (length df - 1) * (5 / 100))))"
    using assms by (simp add: quantile_def)
  have q95: "quantile (map throughput df) (95 / 100)
     = Inr (Some (interpolate (sort (map throughput df)) (real (length df - 1) * (95 / 100))))"
    using assms by (simp add: quantile_def)
  show ?thesis
    unfolding key_metrics_Some [OF assms] insights_b_Some [OF assms] m q5 q95
    using a by (simp add: pct_of_baseline_def fdiv_def fsub_def fmul_def)
qed

theorem C7_deltas_and_percentages_witness:
  "five_trials \<noteq> [] \<and> total_throughput example_base \<noteq> 0
   \<and> [''machining'', ''assembly''] \<noteq> []
   \<and> map_sum id (map_option delta_mean) (key_metrics example_base (Some five_trials))
        = Inr (Some (Some 0))
   \<and> map_sum id (map_option delta_5) (key_metrics example_base (Some five_trials))
        = Inr (Some (Some (- 1800)))
   \<and> map_sum id (map_option delta_95) (key_metrics example_base (Some five_trials))
        = Inr (Some (Some 1800))
   \<and> map_sum id (map_option worst_case_pct) (insights_b example_base (Some five_trials))
        = Inr (Some (Some (- 60)))
   \<and> map_sum id (map_option best_case_pct) (insights_b example_base (Some five_trials))
        = Inr (Some (Some 60))
   \<and> map_sum id improvement_pct (insights_a tied_results [''machining'', ''assembly''])
        = Inr 20"
proof -
  have ne: "five_trials \<noteq> []" by (simp add: five_trials_def)
  have b: "total_throughput example_base = 3000" by (simp add: example_base_def)
  have t: "total_throughput (s1 tied_results) = 1000" by (simp add: tied_results_def)
  have q: "quantile (map throughput five_trials) (5 / 100) = Inr (Some 1200)"
    "quantile (map throughput five_trials) (95 / 100) = Inr (Some 4800)"
    by (simp_all add: five_trials_def example_row_def quantile_def interpolate_def)
  have m: "mean (map throughput five_trials) = Some 3000"
    by (simp add: five_trials_def example_row_def mean_def)
  have i: "map_sum id improvement_pct (insights_a tied_results [''machining'', ''assembly''])
        = Inr 20"
    by (simp add: insights_a_def Let_def py_bind_def py_nth_def bottleneck_report_def tied_results_def)
  from C7_deltas_and_percentages [OF ne, of example_base "[''machining'', ''assembly'']" tied_results]
  obtain km ins m' p5 p95 where
    k: "key_metrics example_base (Some five_trials) = Inr (Some km)"
    and ib: "insights_b example_base (Some five_trials) = Inr (Some ins)"
    and v: "mean_throughput km = Some m'" "percentile_5 km = Some p5" "percentile_95 km = Some p95"
    and d: "delta_mean km = Some (m' - total_throughput example_base)"
      "delta_5 km = Some (p5 - total_throughput example_base)"
      "delta_95 km = Some (p95 - total_throughput example_base)"
    and pc: "total_throughput example_base \<noteq> 0 \<longrightarrow>
           worst_case_pct ins = Some ((p5 / total_throughput example_base - 1) * 100)
         \<and> best_case_pct ins = Some ((p95 / total_throughput example_base - 1) * 100)"
    by blast
  have km: "mean_throughput km = Some 3000" "percentile_5 km = Some 1200" "percentile_95 km = Some 4800"
    using k q m ne by (auto simp: key_metrics_def column_def py_bind_def)
  then have "m' = 3000" "p5 = 1200" "p95 = 4800" using v by simp_all
  then show ?thesis using ne b k ib d pc i by simp
qed

text \<open>
  C7 as stated fails: no output carries the mean's difference as a percentage. Of
  ninety-six trials at 5000 and four at 6000 against a baseline of 5000 the mean is 0.8
  percent above the baseline; the insights show the mean's difference 40 and the
  percentages 0 and 0 of the two percentiles, and the key metrics the differences 40, 0
  and 0.
\<close>

theorem C7_no_percentage_of_mean:
  "pct_of_baseline (mean (map throughput mostly_low)) (total_throughput low_base) = Some (4 / 5)
   \<and> insights_b low_base (Some mostly_low) = Inr (Some \<lparr>
        mean_vs_baseline = Some 40, prob_above_baseline = Some 4,
        worst_case = Some 5000, worst_case_pct = Some 0,
        best_case = Some 5000, best_case_pct = Some 0,
        most_common_bottleneck = ''machining'', bottleneck_pct = Some 100\<rparr>)
   \<and> map_sum id (map_option mean_throughput) (key_metrics low_base (Some mostly_low))
        = Inr (Some (Some 5040))
   \<and> map_sum id (map_option delta_mean) (key_metrics low_base (Some mostly_low))
        = Inr (Some (Some 40))
   \<and> map_sum id (map_option percentile_5) (key_metrics low_base (Some mostly_low))
        = Inr (Some (Some 5000))
   \<and> map_sum id (map_option delta_5) (key_metrics low_base (Some mostly_low))
        = Inr (Some (Some 0))
   \<and> map_sum id (map_option percentile_95) (key_metrics low_base (Some mostly_low))
        = Inr (Some (Some 5000))
   \<and> map_sum id (map_option delta_95) (key_metrics low_base (Some mostly_low))
        = Inr (Some (Some 0))"
proof -
  have ne: "mostly_low \<noteq> []" by (simp add: mostly_low_def)
  have len: "length mostly_low = 100" by (simp add: mostly_low_def)
  have bs: "map row_bottleneck mostly_low = replicate (Suc 99) ''machining''"
    by (simp add: mostly_low_def example_row_def flip: replicate_add)
  have vc: "value_counts (map row_bottleneck mostly_low) = [(''machining'', Suc 99)]"
    unfolding bs by (rule value_counts_replicate)
  have b: "total_throughput low_base = 5000" by (simp add: low_base_def)
  have m: "sum_list (map throughput mostly_low) = 504000"
    by (simp add: mostly_low_def example_row_def sum_list_replicate)
  have above: "length (filter (\<lambda>x. 5000 < x) (map throughput mostly_low)) = 4"
    by (simp add: mostly_low_def example_row_def)
  have mn: "mean (map throughput mostly_low) = Some 5040"
    using ne m len by (simp add: mean_def)
  have q: "interpolate (sort (map throughput mostly_low)) (99 / 20) = 5000"
    "interpolate (sort (map throughput mostly_low)) (1881 / 20) = 5000"
    by (simp_all add: mostly_low_def example_row_def interpolate_def numeral_eq_Suc)
  show ?thesis
    unfolding key_metrics_Some [OF ne] insights_b_Some [OF ne] vc b mn m len above
    by (simp add: q pct_of_baseline_def fdiv_def fsub_def fmul_def)
qed

end
